theory Spec2Isabelle
  imports Main
begin

section \<open>Values and exceptions\<close>

text \<open>
  Timestamps are timezone-aware UTC instants, compared as integers (microseconds since
  the epoch). Primary keys are UUIDs; only their identity matters, so they are numbers.
  Python strings are character lists.
\<close>

type_synonym datetime = int
type_synonym uuid = nat
type_synonym user_id = nat

text \<open>The value stored in the \<open>params\<close> dictionary of a \<open>ValidationError\<close>.\<close>

datatype param = PDatetime datetime | PStr string

text \<open>
  The exceptions that the modelled code raises or catches. \<open>ValidationError\<close> carries its
  message and its \<open>params\<close> dictionary as an association list. \<open>IntegrityError\<close> is what the
  relational store raises when a constraint is violated, \<open>DataError\<close> when a value does
  not fit its column, and \<open>ValueError\<close> is what the database driver raises for a string
  that holds a NUL character.
\<close>

datatype exn =
    ValidationError string "(string \<times> param) list"
  | DoesNotExist
  | MultipleObjectsReturned
  | IntegrityError
  | DataError
  | ValueError
  | AttributeError

section \<open>Validators of \<open>models.py\<close>\<close>

subsection \<open>Timestamps\<close>

text \<open>
  \<open>check_created\<close> and \<open>check_modified\<close> compare their argument with \<open>get_datetime()\<close>,
  the wall clock read at the moment of the call. The reading is the parameter \<open>now\<close>.
\<close>

definition check_created :: "datetime \<Rightarrow> datetime \<Rightarrow> exn + unit" where
  "check_created now dt =
     (if dt > now
      then Inl (ValidationError ''Date and time cannot be in the future.''
                  [(''created'', PDatetime dt)])
      else Inr ())"

definition check_modified :: "datetime \<Rightarrow> datetime \<Rightarrow> exn + unit" where
  "check_modified now dt =
     (if dt > now
      then Inl (ValidationError ''Date and time cannot be in the future.''
                  [(''modified'', PDatetime dt)])
      else Inr ())"

subsection \<open>Game level\<close>

definition check_level :: "int \<Rightarrow> exn + unit" where
  "check_level number =
     (if number < 0 \<or> number > 100
      then Inl (ValidationError ''Value should be between zero and one hundred.'' [])
      else Inr ())"

subsection \<open>Phone number\<close>

text \<open>
  The pattern \<^verbatim>\<open>^\+7[0-9]{3}[0-9]{7}$\<close> is a sequence of items: the two anchors, single
  characters, and a character class repeated a fixed number of times. The matcher
  follows Python's \<open>re\<close> module without flags: \<^verbatim>\<open>^\<close> matches only at the start of the
  subject, and \<^verbatim>\<open>$\<close> matches at the end of the subject and also just before a
  newline that is the subject's last character. The class \<^verbatim>\<open>[0-9]\<close> holds the ten ASCII
  digits only.
\<close>

datatype atom = Lit char | Range char char

datatype item = Caret | Dollar | One atom | Times atom nat

fun atom_ok :: "atom \<Rightarrow> char \<Rightarrow> bool" where
  "atom_ok (Lit c) x = (x = c)"
| "atom_ok (Range lo hi) x =
     ((of_char lo :: nat) \<le> of_char x \<and> (of_char x :: nat) \<le> of_char hi)"

text \<open>
  \<open>match_here items at_start s\<close>: the items match a prefix of the remaining subject \<open>s\<close>;
  \<open>at_start\<close> tells whether the current position is the start of the whole subject.
\<close>

fun match_here :: "item list \<Rightarrow> bool \<Rightarrow> string \<Rightarrow> bool" where
  "match_here [] at_start s = True"
| "match_here (Caret # r) at_start s = (at_start \<and> match_here r at_start s)"
| "match_here (Dollar # r) at_start s =
     ((s = [] \<or> s = [CHR 0x0A]) \<and> match_here r at_start s)"
| "match_here (One a # r) at_start s =
     (case s of [] \<Rightarrow> False | x # xs \<Rightarrow> atom_ok a x \<and> match_here r False xs)"
| "match_here (Times a 0 # r) at_start s = match_here r at_start s"
| "match_here (Times a (Suc n) # r) at_start s =
     (case s of [] \<Rightarrow> False
      | x # xs \<Rightarrow> atom_ok a x \<and> match_here (Times a n # r) False xs)"

text \<open>\<open>search\<close> tries every start position of the subject, from left to right.\<close>

definition search :: "item list \<Rightarrow> string \<Rightarrow> bool" where
  "search items s =
     list_ex (\<lambda>i. match_here items (i = 0) (drop i s)) [0 ..< Suc (length s)]"

definition rule :: "item list" where
  "rule = [Caret, One (Lit (CHR ''+'')), One (Lit (CHR ''7'')),
           Times (Range (CHR ''0'') (CHR ''9'')) 3,
           Times (Range (CHR ''0'') (CHR ''9'')) 7, Dollar]"

definition phone_number_validator :: "string \<Rightarrow> exn + unit" where
  "phone_number_validator number =
     (if \<not> search rule number
      then Inl (ValidationError ''Phone number must be in the format +79999999999.''
                  [(''phone_number'', PStr number)])
      else Inr ())"

text \<open>The constant \<open>PHONE_MAX_LEN\<close> of \<open>models.py\<close>.\<close>

definition PHONE_MAX_LEN :: nat where
  "PHONE_MAX_LEN = 12"

section \<open>The relational store\<close>

text \<open>
  One table per entity and one per association, as declared in \<open>models.py\<close>. Every model
  has the primary key of \<open>UUIDMixin\<close> and the \<open>created\<close> field of \<open>CreatedMixin\<close>; all but
  \<open>ClubClient\<close> also have the \<open>modified\<close> field of \<open>ModifiedMixin\<close>.
\<close>

record club =
  club_id :: uuid
  club_created :: datetime
  club_modified :: datetime
  club_name :: string
  club_phone_number :: string

record boardgame =
  boardgame_id :: uuid
  boardgame_created :: datetime
  boardgame_modified :: datetime
  boardgame_name :: string
  boardgame_level :: int

record client =
  client_id :: uuid
  client_created :: datetime
  client_modified :: datetime
  client_user :: user_id

datatype model = Club | BoardGame | Genre | Address | GameSet | Client

datatype through = ClubToGame | SetToGame | GameGenre | ClubAddress | ClubClient

text \<open>
  A row of an association table: its own key and timestamps, and the two foreign keys in
  the order of their declaration (\<open>left_ref\<close> first, \<open>right_ref\<close> second).
\<close>

record link =
  link_id :: uuid
  link_created :: datetime
  link_modified :: "datetime option"
  left_ref :: uuid
  right_ref :: uuid

text \<open>The two \<open>ForeignKey\<close> fields of each association model: name and target.\<close>

fun foreign_keys :: "through \<Rightarrow> (string \<times> model) \<times> (string \<times> model)" where
  "foreign_keys ClubToGame = ((''club'', Club), (''game'', BoardGame))"
| "foreign_keys SetToGame = ((''set'', GameSet), (''game'', BoardGame))"
| "foreign_keys GameGenre = ((''game'', BoardGame), (''genre'', Genre))"
| "foreign_keys ClubAddress = ((''club'', Club), (''address'', Address))"
| "foreign_keys ClubClient = ((''club'', Club), (''client'', Client))"

text \<open>The \<open>unique_together\<close> entry of each association model's \<open>Meta\<close> class.\<close>

fun unique_together :: "through \<Rightarrow> (string \<times> string) list" where
  "unique_together ClubToGame = [(''club'', ''game'')]"
| "unique_together SetToGame = [(''set'', ''game'')]"
| "unique_together GameGenre = [(''game'', ''genre'')]"
| "unique_together ClubAddress = [(''club'', ''address'')]"
| "unique_together ClubClient = []"

text \<open>Whether \<open>ModifiedMixin\<close> is among the model's bases.\<close>

fun has_modified :: "through \<Rightarrow> bool" where
  "has_modified ClubClient = False"
| "has_modified t = True"

text \<open>
  The store, with two counters for the effects outside it: how often the wall clock has
  been read and how many UUIDs have been drawn.
\<close>

record world =
  clubs :: "club list"
  boardgames :: "boardgame list"
  clients :: "client list"
  links :: "through \<Rightarrow> link list"
  ticks :: nat
  draws :: nat

text \<open>
  The surroundings of the program: what the wall clock shows at its \<open>n\<close>-th reading, the
  \<open>n\<close>-th value of \<open>uuid4()\<close>, and the conversion of a query-string value to a UUID
  (\<open>UUIDField.to_python\<close>, \<open>None\<close> for a malformed value).
\<close>

record host =
  clock :: "nat \<Rightarrow> datetime"
  uuid_src :: "nat \<Rightarrow> uuid"
  to_python :: "string \<Rightarrow> uuid option"

definition get_datetime :: "host \<Rightarrow> world \<Rightarrow> datetime \<times> world" where
  "get_datetime h w = (clock h (ticks w), w\<lparr>ticks := Suc (ticks w)\<rparr>)"

definition uuid4 :: "host \<Rightarrow> world \<Rightarrow> uuid \<times> world" where
  "uuid4 h w = (uuid_src h (draws w), w\<lparr>draws := Suc (draws w)\<rparr>)"

subsection \<open>Queries\<close>

text \<open>\<open>QuerySet.get\<close> on the rows that a filter selected.\<close>

fun objects_get :: "'a list \<Rightarrow> exn + 'a" where
  "objects_get [] = Inl DoesNotExist"
| "objects_get [x] = Inr x"
| "objects_get (x # y # r) = Inl MultipleObjectsReturned"

text \<open>
  \<open>Club.objects.get(id=ident)\<close> with a string: the string is converted first, and a
  malformed one raises \<open>ValidationError\<close>.
\<close>

definition club_get :: "host \<Rightarrow> string \<Rightarrow> world \<Rightarrow> exn + club" where
  "club_get h ident w =
     (case to_python h ident of
        None \<Rightarrow> Inl (ValidationError ''%(value)s is not a valid UUID.'' [(''value'', PStr ident)])
      | Some u \<Rightarrow> objects_get (filter (\<lambda>c. club_id c = u) (clubs w)))"

text \<open>\<open>Client.objects.get(user=...)\<close>.\<close>

definition client_get :: "user_id \<Rightarrow> world \<Rightarrow> exn + client" where
  "client_get u w = objects_get (filter (\<lambda>c. client_user c = u) (clients w))"

text \<open>\<open>ClubClient.objects.get(client=client, club_id=club_id)\<close>.\<close>

definition club_client_get :: "client \<Rightarrow> uuid \<Rightarrow> world \<Rightarrow> exn + link" where
  "club_client_get cl cid w =
     objects_get (filter (\<lambda>r. right_ref r = client_id cl \<and> left_ref r = cid)
                    (links w ClubClient))"

text \<open>\<open>client.clubs.all()\<close>: the clubs joined to the client through \<open>ClubClient\<close>.\<close>

definition client_clubs :: "client \<Rightarrow> world \<Rightarrow> club list" where
  "client_clubs cl w =
     filter (\<lambda>c. list_ex (\<lambda>r. left_ref r = club_id c \<and> right_ref r = client_id cl)
                   (links w ClubClient))
       (clubs w)"

text \<open>\<open>club in queryset\<close>: model instances are equal when their primary keys are.\<close>

definition club_in :: "club \<Rightarrow> club list \<Rightarrow> bool" where
  "club_in c cs = list_ex (\<lambda>c'. club_id c' = club_id c) cs"

subsection \<open>Association rows\<close>

definition field_value :: "through \<Rightarrow> link \<Rightarrow> string \<Rightarrow> uuid option" where
  "field_value t r f =
     (if f = fst (fst (foreign_keys t)) then Some (left_ref r)
      else if f = fst (snd (foreign_keys t)) then Some (right_ref r)
      else None)"

text \<open>A new row violates a \<open>unique_together\<close> entry when a stored row agrees on both fields.\<close>

definition violates_unique :: "through \<Rightarrow> link list \<Rightarrow> link \<Rightarrow> bool" where
  "violates_unique t rows r =
     list_ex (\<lambda>(f, g). list_ex (\<lambda>r'. field_value t r' f = field_value t r f \<and>
                                      field_value t r' g = field_value t r g) rows)
       (unique_together t)"

text \<open>
  \<open>INSERT\<close> into an association table: the store refuses a duplicate primary key and a
  violated \<open>unique_together\<close> with \<open>IntegrityError\<close>. (Whether the referenced rows exist is
  not checked here.)
\<close>

definition insert_link :: "through \<Rightarrow> link \<Rightarrow> world \<Rightarrow> (exn + unit) \<times> world" where
  "insert_link t r w =
     (if list_ex (\<lambda>r'. link_id r' = link_id r) (links w t) \<or> violates_unique t (links w t) r
      then (Inl IntegrityError, w)
      else (Inr (), w\<lparr>links := (links w)(t := links w t @ [r])\<rparr>))"

text \<open>
  A new association instance with the field defaults (\<open>uuid4\<close>, \<open>get_datetime\<close>), in field
  order: \<open>id\<close>, \<open>created\<close>, \<open>modified\<close>.
\<close>

definition new_link :: "host \<Rightarrow> through \<Rightarrow> uuid \<Rightarrow> uuid \<Rightarrow> world \<Rightarrow> link \<times> world" where
  "new_link h t l r w =
     (let (i, w1) = uuid4 h w;
          (c, w2) = get_datetime h w1;
          (m, w3) = (if has_modified t
                     then (let (m, w') = get_datetime h w2 in (Some m, w'))
                     else (None, w2))
      in (\<lparr>link_id = i, link_created = c, link_modified = m, left_ref = l, right_ref = r\<rparr>,
          w3))"

text \<open>
  \<open>objects.create(left=l, right=r)\<close> on an association model: these models have the base
  manager and the base \<open>save\<close>, so the instance is built and inserted.
\<close>

definition link_create ::
  "host \<Rightarrow> through \<Rightarrow> uuid \<Rightarrow> uuid \<Rightarrow> world \<Rightarrow> (exn + link) \<times> world" where
  "link_create h t l r w =
     (let (row, w1) = new_link h t l r w
      in case insert_link t row w1 of
           (Inl e, w2) \<Rightarrow> (Inl e, w2)
         | (Inr u, w2) \<Rightarrow> (Inr row, w2))"

text \<open>The number of rows of an association table with the given pair of references.\<close>

definition pair_count :: "through \<Rightarrow> uuid \<Rightarrow> uuid \<Rightarrow> world \<Rightarrow> nat" where
  "pair_count t l r w =
     length (filter (\<lambda>x. left_ref x = l \<and> right_ref x = r) (links w t))"

text \<open>\<open>instance.delete()\<close> on an association row: the row with that primary key goes.\<close>

definition link_delete :: "through \<Rightarrow> link \<Rightarrow> world \<Rightarrow> world" where
  "link_delete t row w =
     w\<lparr>links := (links w)(t := filter (\<lambda>r. link_id r \<noteq> link_id row) (links w t))\<rparr>"

subsection \<open>Deleting a club\<close>

text \<open>
  Every foreign key of the association models is declared \<open>on_delete=models.CASCADE\<close>:
  deleting an instance of model \<open>m\<close> with key \<open>pk\<close> deletes each association row that
  refers to it through a foreign key whose target is \<open>m\<close>.
\<close>

definition cascade :: "model \<Rightarrow> uuid \<Rightarrow> (through \<Rightarrow> link list) \<Rightarrow> (through \<Rightarrow> link list)" where
  "cascade m pk tbl =
     (\<lambda>t. filter (\<lambda>r. \<not> ((snd (fst (foreign_keys t)) = m \<and> left_ref r = pk) \<or>
                          (snd (snd (foreign_keys t)) = m \<and> right_ref r = pk)))
            (tbl t))"

definition club_delete :: "club \<Rightarrow> world \<Rightarrow> world" where
  "club_delete c w =
     w\<lparr>clubs := filter (\<lambda>r. club_id r \<noteq> club_id c) (clubs w),
       links := cascade Club (club_id c) (links w)\<rparr>"

section \<open>Managers and save hooks\<close>

text \<open>
  A timestamp validator, given the clock reading it takes. The keyword arguments of
  \<open>create\<close> for the two timestamp fields: \<open>None\<close> for a field that was not passed.
\<close>

type_synonym validator = "datetime \<Rightarrow> datetime \<Rightarrow> exn + unit"

record kwargs =
  kw_created :: "datetime option"
  kw_modified :: "datetime option"

definition no_kwargs :: kwargs where
  "no_kwargs = \<lparr>kw_created = None, kw_modified = None\<rparr>"

text \<open>
  The tuple that \<open>Client\<close> passes to \<open>create_save\<close>. \<open>Client\<close> passes the same tuple to
  \<open>create_manager\<close>, but \<open>create_manager\<close> returns the class \<open>Manager\<close> and not an
  instance of it: a class is not installed as a manager, \<open>Client.objects\<close> is the base
  manager like that of every other model, and \<open>Manager.create\<close> with its
  \<open>check_and_validate\<close> is never run. It has no counterpart below.
\<close>

definition client_validators :: "(string \<times> validator) list" where
  "client_validators = [(''created'', check_created), (''modified'', check_modified)]"

text \<open>\<open>getattr(self, value)\<close> on a client, for its timestamp attributes.\<close>

definition client_getattr :: "client \<Rightarrow> string \<Rightarrow> datetime option" where
  "client_getattr self name =
     (if name = ''created'' then Some (client_created self)
      else if name = ''modified'' then Some (client_modified self)
      else None)"

text \<open>The loop of the \<open>save\<close> made by \<open>create_save\<close>: every validator runs on the attribute.\<close>

fun validate_instance ::
  "host \<Rightarrow> (string \<times> validator) list \<Rightarrow> client \<Rightarrow> world \<Rightarrow> (exn + unit) \<times> world" where
  "validate_instance h [] self w = (Inr (), w)"
| "validate_instance h ((value, validator) # vs) self w =
     (case client_getattr self value of
        None \<Rightarrow> (Inl AttributeError, w)
      | Some v \<Rightarrow>
          (let (now, w') = get_datetime h w
           in case validator now v of
                Inl e \<Rightarrow> (Inl e, w')
              | Inr u \<Rightarrow> validate_instance h vs self w'))"

text \<open>
  The base \<open>Model.save\<close> on the client table. An insert is refused when the primary key
  or the one-to-one \<open>user\<close> is taken; saving an instance read from the table updates its
  row, and inserts when the row is gone.
\<close>

definition client_insert :: "client \<Rightarrow> world \<Rightarrow> (exn + unit) \<times> world" where
  "client_insert c w =
     (if list_ex (\<lambda>r. client_id r = client_id c \<or> client_user r = client_user c) (clients w)
      then (Inl IntegrityError, w)
      else (Inr (), w\<lparr>clients := clients w @ [c]\<rparr>))"

definition client_update :: "client \<Rightarrow> world \<Rightarrow> (exn + unit) \<times> world" where
  "client_update c w =
     (if list_ex (\<lambda>r. client_id r = client_id c) (clients w)
      then (if list_ex (\<lambda>r. client_id r \<noteq> client_id c \<and> client_user r = client_user c)
                 (clients w)
            then (Inl IntegrityError, w)
            else (Inr (), w\<lparr>clients := map (\<lambda>r. if client_id r = client_id c then c else r)
                                            (clients w)\<rparr>))
      else client_insert c w)"

text \<open>\<open>Client.save\<close>: the validators, then the base \<open>save\<close>.\<close>

definition client_save :: "host \<Rightarrow> bool \<Rightarrow> client \<Rightarrow> world \<Rightarrow> (exn + unit) \<times> world" where
  "client_save h force_insert self w =
     (case validate_instance h client_validators self w of
        (Inl e, w') \<Rightarrow> (Inl e, w')
      | (Inr u, w') \<Rightarrow> (if force_insert then client_insert self w' else client_update self w'))"

text \<open>A field's value at construction: the keyword argument, or else the field default.\<close>

definition field_or_default :: "host \<Rightarrow> datetime option \<Rightarrow> world \<Rightarrow> datetime \<times> world" where
  "field_or_default h passed w =
     (case passed of Some v \<Rightarrow> (v, w) | None \<Rightarrow> get_datetime h w)"

definition new_client :: "host \<Rightarrow> kwargs \<Rightarrow> user_id \<Rightarrow> world \<Rightarrow> client \<times> world" where
  "new_client h kwargs user w =
     (let (i, w1) = uuid4 h w;
          (c, w2) = field_or_default h (kw_created kwargs) w1;
          (m, w3) = field_or_default h (kw_modified kwargs) w2
      in (\<lparr>client_id = i, client_created = c, client_modified = m, client_user = user\<rparr>, w3))"

text \<open>
  \<open>Client.objects.create(user=user, **kwargs)\<close>: the base \<open>create\<close>, which builds the
  instance and calls its \<open>save\<close> with \<open>force_insert\<close>; that \<open>save\<close> is the hook above.
\<close>

definition client_create ::
  "host \<Rightarrow> kwargs \<Rightarrow> user_id \<Rightarrow> world \<Rightarrow> (exn + client) \<times> world" where
  "client_create h kwargs user w =
     (let (obj, w1) = new_client h kwargs user w
      in case client_save h True obj w1 of
           (Inl e, w2) \<Rightarrow> (Inl e, w2)
         | (Inr u, w2) \<Rightarrow> (Inr obj, w2))"









section \<open>Views of \<open>views.py\<close>\<close>

text \<open>
  A request: its method, its query string, and the logged-in user (\<open>None\<close> for an
  anonymous request, which \<open>login_required\<close> sends to the login page).
\<close>

record request =
  req_method :: string
  req_GET :: "string \<rightharpoonup> string"
  req_user :: "user_id option"

datatype response = Redirect string | RedirectToLogin | Render string club

datatype message = Success string | Error string | ErrorOccurred exn

text \<open>
  \<open>client.clubs.add(club)\<close>: the related manager inserts a \<open>ClubClient\<close> row for the
  club unless the client is already linked to it.
\<close>

definition clubs_add :: "host \<Rightarrow> client \<Rightarrow> club \<Rightarrow> world \<Rightarrow> (exn + unit) \<times> world" where
  "clubs_add h cl c w =
     (if list_ex (\<lambda>r. left_ref r = club_id c \<and> right_ref r = client_id cl) (links w ClubClient)
      then (Inr (), w)
      else (let (row, w1) = new_link h ClubClient (club_id c) (client_id cl) w
            in insert_link ClubClient row w1))"

text \<open>
  The exceptions caught by \<open>except (ValidationError, ObjectDoesNotExist)\<close>. The test
  \<open>if not club\<close> after it never fires, since a model instance is truthy, and has no
  branch in \<open>join\<close> below. A write made before an exception stays in the store: each
  statement commits on its own.
\<close>

fun caught_by_join :: "exn \<Rightarrow> bool" where
  "caught_by_join (ValidationError msg ps) = True"
| "caught_by_join DoesNotExist = True"
| "caught_by_join e = False"

definition join :: "host \<Rightarrow> request \<Rightarrow> world \<Rightarrow> (exn + response) \<times> world" where
  "join h request w =
     (case req_user request of
        None \<Rightarrow> (Inr RedirectToLogin, w)
      | Some u \<Rightarrow>
          (case client_get u w of
             Inl e \<Rightarrow> (Inl e, w)
           | Inr cl \<Rightarrow>
               (case req_GET request ''id'' of
                  None \<Rightarrow> (Inr (Redirect ''clubs''), w)
                | Some ident \<Rightarrow>
                    (if ident = [] then (Inr (Redirect ''clubs''), w)
                     else (case club_get h ident w of
                             Inl e \<Rightarrow> (if caught_by_join e then (Inr (Redirect ''clubs''), w)
                                       else (Inl e, w))
                           | Inr c \<Rightarrow>
                               (if club_in c (client_clubs cl w)
                                then (Inr (Redirect ''profile''), w)
                                else if req_method request = ''POST''
                                then (case clubs_add h cl c w of
                                        (Inl e, w1) \<Rightarrow> (Inl e, w1)
                                      | (Inr u1, w1) \<Rightarrow>
                                          (case client_save h False cl w1 of
                                             (Inl e, w2) \<Rightarrow> (Inl e, w2)
                                           | (Inr u2, w2) \<Rightarrow>
                                               (Inr (Redirect ''profile''), w2)))
                                else (Inr (Render ''pages/join.html'' c), w)))))))"

definition remove_from_joined ::
  "request \<Rightarrow> uuid \<Rightarrow> world \<Rightarrow> (exn + message list \<times> response) \<times> world" where
  "remove_from_joined request cid w =
     (case req_user request of
        None \<Rightarrow> (Inr ([], RedirectToLogin), w)
      | Some u \<Rightarrow>
          (case client_get u w of
             Inl e \<Rightarrow> (Inl e, w)
           | Inr cl \<Rightarrow>
               (case club_client_get cl cid w of
                  Inr club_client \<Rightarrow>
                    (Inr ([Success ''You have successfully left the club.''],
                          Redirect ''profile''),
                     link_delete ClubClient club_client w)
                | Inl DoesNotExist \<Rightarrow>
                    (Inr ([Error ''You are not a member of this club.''], Redirect ''profile''),
                     w)
                | Inl exc \<Rightarrow> (Inr ([ErrorOccurred exc], Redirect ''profile''), w))))"

section \<open>Example data\<close>

text \<open>
  A small store and surroundings on which the theorems below are instantiated: one club,
  one client of user 7, a clock that advances by one at every reading, and identifiers
  \<open>c1\<close> and \<open>c2\<close> that parse as the UUIDs 1 and 2.
\<close>

definition demo_host :: host where
  "demo_host =
     \<lparr>clock = (\<lambda>n. 1000 + int n),
      uuid_src = (\<lambda>n. 100 + n),
      to_python = (\<lambda>s. if s = ''c1'' then Some 1 else if s = ''c2'' then Some 2 else None)\<rparr>"

definition demo_club :: club where
  "demo_club =
     \<lparr>club_id = 1, club_created = 10, club_modified = 10, club_name = ''DEF'',
      club_phone_number = ''+79098087060''\<rparr>"

definition demo_client :: client where
  "demo_client = \<lparr>client_id = 5, client_created = 20, client_modified = 20, client_user = 7\<rparr>"

definition demo_link :: "uuid \<Rightarrow> uuid \<Rightarrow> uuid \<Rightarrow> link" where
  "demo_link i l r =
     \<lparr>link_id = i, link_created = 30, link_modified = Some 30, left_ref = l, right_ref = r\<rparr>"

definition demo_links :: "through \<Rightarrow> link list" where
  "demo_links t =
     (case t of
        ClubToGame \<Rightarrow> [demo_link 50 1 3, demo_link 51 2 3]
      | ClubAddress \<Rightarrow> [demo_link 52 1 4]
      | SetToGame \<Rightarrow> [demo_link 53 1 3]
      | GameGenre \<Rightarrow> []
      | ClubClient \<Rightarrow> [])"

definition demo_world :: world where
  "demo_world =
     \<lparr>clubs = [demo_club], boardgames = [], clients = [demo_client], links = demo_links,
      ticks = 0, draws = 0\<rparr>"

text \<open>A clock that steps back after its second reading.\<close>

definition backward_host :: host where
  "backward_host = demo_host\<lparr>clock := (\<lambda>n. if n < 2 then 100 else 50)\<rparr>"


definition demo_request :: "string \<Rightarrow> string \<Rightarrow> request" where
  "demo_request m ident = \<lparr>req_method = m, req_GET = [''id'' \<mapsto> ident], req_user = Some 7\<rparr>"

section \<open>Properties of the validators\<close>

text \<open>
  C8. For every integer \<open>n\<close>, the level validator returns normally if and only if
  \<open>0 \<le> n \<le> 100\<close>; otherwise it raises a validation error.
\<close>

theorem check_level_accepts_iff:
  "(check_level n = Inr ()) = (0 \<le> n \<and> n \<le> 100) \<and>
   (\<exists>msg ps. check_level n = Inl (ValidationError msg ps)) = (\<not> (0 \<le> n \<and> n \<le> 100))"
  by (auto simp: check_level_def)

theorem check_level_witness:
  "check_level 0 = Inr () \<and> check_level 30 = Inr () \<and> check_level 100 = Inr () \<and>
   check_level (- 1) \<noteq> Inr () \<and> check_level 101 \<noteq> Inr () \<and> check_level 3000 \<noteq> Inr ()"
  using check_level_accepts_iff [of 0] check_level_accepts_iff [of 30]
    check_level_accepts_iff [of 100] check_level_accepts_iff [of "- 1"]
    check_level_accepts_iff [of 101] check_level_accepts_iff [of 3000]
  by simp

text \<open>
  C9. For every timestamp \<open>t\<close> and current time \<open>now\<close>, \<open>check_created\<close> and
  \<open>check_modified\<close> accept \<open>t\<close> if and only if \<open>t \<le> now\<close>; a timestamp strictly after
  \<open>now\<close> raises a validation error that carries \<open>t\<close> in its parameters.
\<close>

theorem timestamp_validators_accept_iff:
  "(check_created now t = Inr ()) = (t \<le> now) \<and>
   (check_modified now t = Inr ()) = (t \<le> now) \<and>
   (now < t \<longrightarrow>
      check_created now t =
        Inl (ValidationError ''Date and time cannot be in the future.''
               [(''created'', PDatetime t)]) \<and>
      check_modified now t =
        Inl (ValidationError ''Date and time cannot be in the future.''
               [(''modified'', PDatetime t)]))"
  by (simp add: check_created_def check_modified_def)

theorem timestamp_validators_witness:
  "check_created 10 10 = Inr () \<and> check_modified 10 9 = Inr () \<and>
   check_created 10 11 =
     Inl (ValidationError ''Date and time cannot be in the future.''
            [(''created'', PDatetime 11)]) \<and>
   check_modified 10 11 =
     Inl (ValidationError ''Date and time cannot be in the future.''
            [(''modified'', PDatetime 11)])"
  using timestamp_validators_accept_iff [of 10 10] timestamp_validators_accept_iff [of 10 9]
    timestamp_validators_accept_iff [of 10 11]
  by simp

subsection \<open>The phone-number pattern\<close>

lemma match_times:
  "match_here (Times a n # r) b s =
     (\<exists>ds rest. s = ds @ rest \<and> length ds = n \<and> list_all (atom_ok a) ds \<and>
        match_here r (b \<and> n = 0) rest)"
proof (induction n arbitrary: b s)
  case 0
  then show ?case by simp
next
  case (Suc n)
  show ?case
  proof (cases s)
    case Nil
    then show ?thesis by simp
  next
    case (Cons x xs)
    show ?thesis
      apply (simp add: Cons Suc.IH)
      apply (rule iffI)
       apply (elim conjE exE)
      subgoal for ds rest
        apply (rule exI[of _ "x # ds"])
        apply simp
        done
      apply (elim conjE exE)
      subgoal for ds rest
        apply (cases ds)
         apply simp
        apply auto
        done
      done
  qed
qed

lemma search_caret: "search (Caret # r) s = match_here r True s"
  unfolding search_def list_ex_iff by auto

lemma split_3_7:
  "(\<exists>a c. ds = a @ c \<and> length a = 3 \<and> length c = 7 \<and> list_all P a \<and> list_all P c)
     = (length ds = 10 \<and> list_all P ds)"
proof
  assume "\<exists>a c. ds = a @ c \<and> length a = 3 \<and> length c = 7 \<and> list_all P a \<and> list_all P c"
  then show "length ds = 10 \<and> list_all P ds" by auto
next
  assume h: "length ds = 10 \<and> list_all P ds"
  have "ds = take 3 ds @ drop 3 ds" by simp
  moreover have "length (take 3 ds) = 3" "length (drop 3 ds) = 7" using h by simp_all
  moreover have "list_all P (take 3 ds)" "list_all P (drop 3 ds)"
    using h by (auto simp: list_all_iff dest: in_set_takeD in_set_dropD)
  ultimately show "\<exists>a c. ds = a @ c \<and> length a = 3 \<and> length c = 7 \<and> list_all P a \<and> list_all P c"
    by blast
qed

text \<open>
  What the pattern accepts: \<open>+7\<close> and ten digits, optionally followed by one newline.
\<close>

lemma search_rule_iff:
  "search rule s =
     (\<exists>ds. length ds = 10 \<and> list_all (atom_ok (Range (CHR ''0'') (CHR ''9''))) ds \<and>
        (s = ''+7'' @ ds \<or> s = ''+7'' @ ds @ [CHR 0x0A]))"
  (is "_ = (\<exists>ds. _ \<and> list_all ?P ds \<and> _)")
proof -
  have "search rule s =
      (\<exists>a c d. s = ''+7'' @ (a @ c) @ d \<and> length a = 3 \<and> length c = 7 \<and>
         list_all ?P a \<and> list_all ?P c \<and> (d = [] \<or> d = [CHR 0x0A]))"
    unfolding rule_def search_caret
    apply (cases s)
     apply simp
    subgoal for x xs
      apply (cases xs)
       apply simp
      apply (simp add: match_times)
      apply blast
      done
    done
  also have "\<dots> =
      (\<exists>ds d. s = ''+7'' @ ds @ d \<and>
         (\<exists>a c. ds = a @ c \<and> length a = 3 \<and> length c = 7 \<and> list_all ?P a \<and> list_all ?P c) \<and>
         (d = [] \<or> d = [CHR 0x0A]))"
    by blast
  also have "\<dots> =
      (\<exists>ds d. s = ''+7'' @ ds @ d \<and> (length ds = 10 \<and> list_all ?P ds) \<and>
         (d = [] \<or> d = [CHR 0x0A]))"
    unfolding split_3_7 ..
  also have "\<dots> =
      (\<exists>ds. length ds = 10 \<and> list_all ?P ds \<and>
         (s = ''+7'' @ ds \<or> s = ''+7'' @ ds @ [CHR 0x0A]))"
    by auto
  finally show ?thesis .
qed

lemma phone_number_validator_accepts_iff:
  "(phone_number_validator s = Inr ()) =
     (\<exists>ds. length ds = 10 \<and> list_all (atom_ok (Range (CHR ''0'') (CHR ''9''))) ds \<and>
        (s = ''+7'' @ ds \<or> s = ''+7'' @ ds @ [CHR 0x0A]))"
proof -
  have "(phone_number_validator s = Inr ()) = search rule s"
    by (simp add: phone_number_validator_def)
  then show ?thesis by (simp only: search_rule_iff)
qed

lemma phone_number_validator_examples:
  "phone_number_validator ''+79098087060'' = Inr () \<and>
   phone_number_validator ''+7909ee8087060'' \<noteq> Inr () \<and>
   phone_number_validator ''+790980870600'' \<noteq> Inr () \<and>
   phone_number_validator ''79098087060'' \<noteq> Inr ()"
  by code_simp

text \<open>
  C3. The claim says that the phone-number validator accepts exactly \<open>+7\<close> followed by
  ten digits and nothing else. The validator also accepts such a number followed by one
  newline character, a string of 13 characters, longer than \<open>PHONE_MAX_LEN\<close>.
\<close>

theorem phone_number_validator_trailing_newline:
  "phone_number_validator (''+79098087060'' @ [CHR 0x0A]) = Inr () \<and>
   length (''+79098087060'' @ [CHR 0x0A]) = Suc PHONE_MAX_LEN"
  by code_simp

section \<open>Properties of the store\<close>

lemma cascade_club:
  "cascade Club pk tbl t =
     (if t = ClubToGame \<or> t = ClubAddress \<or> t = ClubClient
      then filter (\<lambda>r. left_ref r \<noteq> pk) (tbl t) else tbl t)"
  by (cases t) (simp_all add: cascade_def)

text \<open>
  C7. Deleting a club removes the club and every \<open>ClubToGame\<close>, \<open>ClubAddress\<close> and
  \<open>ClubClient\<close> row that refers to it (exactly those rows of the three tables), so that
  afterwards no row of these tables refers to the deleted club.
\<close>

theorem club_delete_cascades:
  "list_all (\<lambda>r. club_id r \<noteq> club_id c) (clubs (club_delete c w)) \<and>
   (\<forall>t \<in> {ClubToGame, ClubAddress, ClubClient}.
      links (club_delete c w) t = filter (\<lambda>r. left_ref r \<noteq> club_id c) (links w t) \<and>
      (\<forall>r \<in> set (links (club_delete c w) t). left_ref r \<noteq> club_id c))"
  by (simp add: club_delete_def cascade_club list_all_iff)

theorem club_delete_cascades_witness:
  "clubs (club_delete demo_club demo_world) = [] \<and>
   links (club_delete demo_club demo_world) ClubToGame = [demo_link 51 2 3] \<and>
   links (club_delete demo_club demo_world) ClubAddress = [] \<and>
   links (club_delete demo_club demo_world) ClubClient = []"
  using club_delete_cascades [of demo_club demo_world]
  by (simp add: club_delete_def demo_world_def demo_club_def demo_links_def demo_link_def)

section \<open>Properties of the views\<close>

subsection \<open>Leaving a club that was not joined\<close>

lemma objects_get_Inr: "objects_get xs = Inr x \<Longrightarrow> xs = [x]"
  by (cases xs rule: objects_get.cases) simp_all

text \<open>
  C5. When the logged-in user's client has no \<open>ClubClient\<close> row for the club,
  \<open>remove_from_joined\<close> raises nothing: it answers with the redirect to the profile
  page, reports the message that the user is not a member, and leaves the store as it
  was.
\<close>

theorem leave_not_member:
  assumes "req_user request = Some u"
    and "client_get u w = Inr cl"
    and "pair_count ClubClient cid (client_id cl) w = 0"
  shows "remove_from_joined request cid w =
           (Inr ([Error ''You are not a member of this club.''], Redirect ''profile''), w)"
proof -
  have "filter (\<lambda>r. right_ref r = client_id cl \<and> left_ref r = cid) (links w ClubClient) = []"
    using assms(3) by (simp add: pair_count_def conj_commute)
  then have "club_client_get cl cid w = Inl DoesNotExist"
    by (simp add: club_client_get_def)
  then show ?thesis
    using assms(1,2) by (simp add: remove_from_joined_def)
qed

lemma demo_client_get: "client_get 7 demo_world = Inr demo_client"
  by (simp add: client_get_def demo_world_def demo_client_def)

theorem leave_not_member_witness:
  "remove_from_joined (demo_request ''POST'' []) 1 demo_world =
     (Inr ([Error ''You are not a member of this club.''], Redirect ''profile''), demo_world)"
proof -
  have a: "req_user (demo_request ''POST'' []) = Some 7"
    by (simp add: demo_request_def)
  have c: "pair_count ClubClient 1 (client_id demo_client) demo_world = 0"
    by (simp add: pair_count_def demo_world_def demo_links_def)
  show ?thesis by (rule leave_not_member [OF a demo_client_get c])
qed

subsection \<open>Identifiers that resolve to no club\<close>

lemma club_get_malformed:
  "to_python h ident = None \<Longrightarrow> \<exists>msg ps. club_get h ident w = Inl (ValidationError msg ps)"
  by (simp add: club_get_def)

lemma club_get_missing:
  "to_python h ident = Some u \<Longrightarrow> \<not> list_ex (\<lambda>c. club_id c = u) (clubs w) \<Longrightarrow>
   club_get h ident w = Inl DoesNotExist"
  by (simp add: club_get_def list_ex_iff filter_empty_conv[THEN iffD2])

lemma join_not_found:
  assumes "req_GET request ''id'' = Some ident"
    and "club_get h ident w = Inl e" and "caught_by_join e"
  shows "join h request w =
     (case req_user request of
        None \<Rightarrow> (Inr RedirectToLogin, w)
      | Some u \<Rightarrow> (case client_get u w of
                    Inl e \<Rightarrow> (Inl e, w)
                  | Inr cl \<Rightarrow> (Inr (Redirect ''clubs''), w)))"
  using assms by (simp add: join_def split: option.splits sum.splits)

text \<open>
  C6. In \<open>join\<close>, an identifier that does not parse as a UUID and an identifier of a club
  that does not exist give the same result; for a user with a client profile that
  result is the redirect to the club list, with the store unchanged and no exception.
\<close>

theorem join_malformed_like_missing:
  assumes "req_GET r1 ''id'' = Some bad" and "to_python h bad = None"
    and "req_GET r2 ''id'' = Some good" and "to_python h good = Some k"
    and "\<not> list_ex (\<lambda>c. club_id c = k) (clubs w)"
    and "req_user r1 = req_user r2"
  shows "join h r1 w = join h r2 w \<and>
         (\<forall>u cl. req_user r1 = Some u \<and> client_get u w = Inr cl \<longrightarrow>
            join h r1 w = (Inr (Redirect ''clubs''), w))"
proof -
  obtain msg ps where b: "club_get h bad w = Inl (ValidationError msg ps)"
    using club_get_malformed[OF assms(2)] by blast
  have g: "club_get h good w = Inl DoesNotExist"
    by (rule club_get_missing[OF assms(4,5)])
  have j1: "join h r1 w =
     (case req_user r1 of
        None \<Rightarrow> (Inr RedirectToLogin, w)
      | Some u \<Rightarrow> (case client_get u w of
                    Inl e \<Rightarrow> (Inl e, w)
                  | Inr cl \<Rightarrow> (Inr (Redirect ''clubs''), w)))"
    by (rule join_not_found[OF assms(1) b]) simp
  have j2: "join h r2 w =
     (case req_user r2 of
        None \<Rightarrow> (Inr RedirectToLogin, w)
      | Some u \<Rightarrow> (case client_get u w of
                    Inl e \<Rightarrow> (Inl e, w)
                  | Inr cl \<Rightarrow> (Inr (Redirect ''clubs''), w)))"
    by (rule join_not_found[OF assms(3) g]) simp
  show ?thesis
    unfolding j1 j2 using assms(6) by auto
qed

theorem join_malformed_like_missing_witness:
  "join demo_host (demo_request ''POST'' ''123'') demo_world =
     join demo_host (demo_request ''POST'' ''c2'') demo_world \<and>
   join demo_host (demo_request ''POST'' ''123'') demo_world =
     (Inr (Redirect ''clubs''), demo_world)"
proof -
  have a: "req_GET (demo_request ''POST'' ''123'') ''id'' = Some ''123''"
    and b: "to_python demo_host ''123'' = None"
    and c: "req_GET (demo_request ''POST'' ''c2'') ''id'' = Some ''c2''"
    and d: "to_python demo_host ''c2'' = Some 2"
    and e: "\<not> list_ex (\<lambda>c. club_id c = 2) (clubs demo_world)"
    and f: "req_user (demo_request ''POST'' ''123'') = req_user (demo_request ''POST'' ''c2'')"
    and g: "req_user (demo_request ''POST'' ''123'') = Some 7"
    by (simp_all add: demo_request_def demo_host_def demo_world_def demo_club_def)
  from join_malformed_like_missing [OF a b c d e f] g demo_client_get
  show ?thesis by blast
qed


subsection \<open>Joining twice\<close>

lemma client_get_Inr:
  assumes "client_get u w = Inr cl"
  shows "cl \<in> set (clients w)" and "client_user cl = u"
    and "\<And>r. r \<in> set (clients w) \<Longrightarrow> client_user r = u \<Longrightarrow> r = cl"
proof -
  have f: "filter (\<lambda>c. client_user c = u) (clients w) = [cl]"
    using assms by (simp add: client_get_def objects_get_Inr)
  have "cl \<in> set (filter (\<lambda>c. client_user c = u) (clients w))"
    by (simp add: f)
  then show "cl \<in> set (clients w)" and "client_user cl = u" by simp_all
  fix r assume "r \<in> set (clients w)" "client_user r = u"
  then have "r \<in> set (filter (\<lambda>c. client_user c = u) (clients w))" by simp
  then show "r = cl" by (simp add: f)
qed

lemma club_get_Inr: "club_get h ident w = Inr c \<Longrightarrow> c \<in> set (clubs w)"
proof -
  assume a: "club_get h ident w = Inr c"
  then obtain k where "filter (\<lambda>x. club_id x = k) (clubs w) = [c]"
    by (auto simp: club_get_def split: option.splits dest: objects_get_Inr)
  then have "c \<in> set (filter (\<lambda>x. club_id x = k) (clubs w))" by simp
  then show ?thesis by simp
qed



lemma member_iff:
  "c \<in> set (clubs w) \<Longrightarrow>
   club_in c (client_clubs cl w) =
     list_ex (\<lambda>r. left_ref r = club_id c \<and> right_ref r = client_id cl) (links w ClubClient)"
  by (auto simp: club_in_def client_clubs_def list_ex_iff)



lemma world_clients_same: "w\<lparr>clients := clients w\<rparr> = w"
  by simp

lemma client_update_loaded:
  assumes d: "distinct (map client_id (clients w))"
    and g: "client_get u w = Inr cl"
    and e: "clients w' = clients w"
  shows "client_update cl w' = (Inr (), w')"
proof -
  note cl = client_get_Inr[OF g]
  have "inj_on client_id (set (clients w))"
    using d by (simp add: distinct_map)
  then have same: "\<And>r. r \<in> set (clients w) \<Longrightarrow> client_id r = client_id cl \<Longrightarrow> r = cl"
    using cl(1) by (auto dest: inj_onD)
  have m: "map (\<lambda>r. if client_id r = client_id cl then cl else r) (clients w') = clients w'"
    unfolding e by (rule map_idI) (auto dest: same)
  have a: "list_ex (\<lambda>r. client_id r = client_id cl) (clients w')"
    unfolding e using cl(1) by (auto simp: list_ex_iff)
  have b: "\<not> list_ex (\<lambda>r. client_id r \<noteq> client_id cl \<and> client_user r = client_user cl)
             (clients w')"
    unfolding e using cl(2,3) by (auto simp: list_ex_iff)
  show ?thesis
    unfolding client_update_def using a b by (simp only: if_True if_False m world_clients_same)
qed



lemma join_member:
  assumes "req_user request = Some u" and "client_get u v = Inr cl"
    and "req_GET request ''id'' = Some ident" and "ident \<noteq> []"
    and "club_get h ident v = Inr c" and "club_in c (client_clubs cl v)"
  shows "join h request v = (Inr (Redirect ''profile''), v)"
  unfolding join_def by (simp only: assms option.case sum.case if_True if_False)

lemma join_post_new:
  assumes "req_user request = Some u" and "client_get u w = Inr cl"
    and "req_GET request ''id'' = Some ident" and "ident \<noteq> []"
    and "club_get h ident w = Inr c" and "\<not> club_in c (client_clubs cl w)"
    and "req_method request = ''POST''"
  shows "join h request w =
           (case clubs_add h cl c w of
              (Inl e, w1) \<Rightarrow> (Inl e, w1)
            | (Inr u1, w1) \<Rightarrow>
                (case client_save h False cl w1 of
                   (Inl e, w2) \<Rightarrow> (Inl e, w2)
                 | (Inr u2, w2) \<Rightarrow> (Inr (Redirect ''profile''), w2)))"
  unfolding join_def by (simp only: assms option.case sum.case if_True if_False simp_thms)


text \<open>
  The first call returns when \<open>uuid4\<close> draws an unused key and the client's own
  timestamps are not later than the clock readings of its \<open>save\<close>.
\<close>

lemma join_first_returns:
  assumes usr: "req_user request = Some u"
    and cli: "client_get u w = Inr cl"
    and pk: "distinct (map client_id (clients w))"
    and qid: "req_GET request ''id'' = Some ident" "ident \<noteq> []"
    and clb: "club_get h ident w = Inr c"
    and post: "req_method request = ''POST''"
    and fresh: "\<not> list_ex (\<lambda>r. link_id r = uuid_src h (draws w)) (links w ClubClient)"
    and past: "client_created cl \<le> clock h (Suc (ticks w))"
      "client_modified cl \<le> clock h (Suc (Suc (ticks w)))"
  shows "\<exists>w1. join h request w = (Inr (Redirect ''profile''), w1)"
proof (cases "club_in c (client_clubs cl w)")
  case True
  from join_member[OF usr cli qid clb True] show ?thesis by blast
next
  case False
  note j = join_post_new[OF usr cli qid clb False post]
  have cin: "c \<in> set (clubs w)" by (rule club_get_Inr[OF clb])
  have nm: "\<not> list_ex (\<lambda>r. left_ref r = club_id c \<and> right_ref r = client_id cl)
              (links w ClubClient)"
    using False cin by (simp add: member_iff)
  let ?row = "\<lparr>link_id = uuid_src h (draws w), link_created = clock h (ticks w),
               link_modified = None, left_ref = club_id c, right_ref = client_id cl\<rparr>"
  let ?wa = "w\<lparr>draws := Suc (draws w), ticks := Suc (ticks w),
               links := (links w)(ClubClient := links w ClubClient @ [?row])\<rparr>"
  have add: "clubs_add h cl c w = (Inr (), ?wa)"
    using nm fresh
    by (simp add: clubs_add_def new_link_def insert_link_def uuid4_def get_datetime_def
        violates_unique_def)
  have v: "validate_instance h client_validators cl ?wa =
             (Inr (), ?wa\<lparr>ticks := Suc (Suc (Suc (ticks w)))\<rparr>)"
    using past
    by (simp add: client_validators_def client_getattr_def get_datetime_def check_created_def
        check_modified_def)
  have up: "client_update cl (?wa\<lparr>ticks := Suc (Suc (Suc (ticks w)))\<rparr>) =
              (Inr (), ?wa\<lparr>ticks := Suc (Suc (Suc (ticks w)))\<rparr>)"
    by (rule client_update_loaded[OF pk cli]) simp
  have sv: "client_save h False cl ?wa = (Inr (), ?wa\<lparr>ticks := Suc (Suc (Suc (ticks w)))\<rparr>)"
    unfolding client_save_def v using up by simp
  show ?thesis unfolding j add using sv by simp
qed


lemmas demo_defs = demo_host_def demo_world_def demo_club_def demo_client_def demo_links_def
  demo_link_def demo_request_def






section \<open>Properties of the association tables\<close>

lemma violates_unique_iff:
  "t \<noteq> ClubClient \<Longrightarrow>
   violates_unique t rows row =
     list_ex (\<lambda>r'. left_ref r' = left_ref row \<and> right_ref r' = right_ref row) rows"
  by (cases t) (simp_all add: violates_unique_def field_value_def)

lemma new_link_fields:
  "new_link h t l r w = (row, w') \<Longrightarrow>
   left_ref row = l \<and> right_ref row = r \<and> link_id row = uuid_src h (draws w) \<and>
   links w' = links w \<and> clubs w' = clubs w \<and> clients w' = clients w \<and>
   boardgames w' = boardgames w"
  by (auto simp: new_link_def uuid4_def get_datetime_def split: if_splits)

lemma link_create_duplicate_refused:
  assumes t: "t \<noteq> ClubClient"
    and d: "list_ex (\<lambda>x. left_ref x = l \<and> right_ref x = r) (links w t)"
  shows "fst (link_create h t l r w) = Inl IntegrityError \<and>
         links (snd (link_create h t l r w)) = links w"
proof -
  obtain row w1 where n: "new_link h t l r w = (row, w1)"
    by (cases "new_link h t l r w")
  note f = new_link_fields[OF n]
  have "violates_unique t (links w1 t) row"
    using d f by (simp add: violates_unique_iff[OF t])
  then have "insert_link t row w1 = (Inl IntegrityError, w1)"
    by (simp add: insert_link_def)
  then show ?thesis using n f by (simp add: link_create_def)
qed

lemma link_create_club_client_accepts:
  assumes "\<not> list_ex (\<lambda>x. link_id x = uuid_src h (draws w)) (links w ClubClient)"
  shows "\<exists>row w'. link_create h ClubClient l r w = (Inr row, w') \<and>
           pair_count ClubClient l r w' = Suc (pair_count ClubClient l r w)"
proof -
  obtain row w1 where n: "new_link h ClubClient l r w = (row, w1)"
    by (cases "new_link h ClubClient l r w")
  note f = new_link_fields[OF n]
  have "insert_link ClubClient row w1 =
          (Inr (), w1\<lparr>links := (links w1)(ClubClient := links w1 ClubClient @ [row])\<rparr>)"
    using assms f by (simp add: insert_link_def violates_unique_def)
  then show ?thesis using n f by (simp add: link_create_def pair_count_def)
qed

text \<open>
  C1. The claim says that in each of the five association tables a second row with the
  same pair of references is refused. \<open>ClubToGame\<close>, \<open>SetToGame\<close>, \<open>GameGenre\<close> and
  \<open>ClubAddress\<close> declare \<open>unique_together\<close> and refuse it (lemma
  \<open>link_create_duplicate_refused\<close>); \<open>ClubClient\<close> declares nothing, and creating the same
  (club, client) row twice succeeds and leaves two rows.
\<close>

theorem club_client_duplicate_accepted:
  "\<exists>a b w1 w2.
     link_create demo_host ClubClient 1 5 demo_world = (Inr a, w1) \<and>
     link_create demo_host ClubClient 1 5 w1 = (Inr b, w2) \<and>
     pair_count ClubClient 1 5 w1 = 1 \<and> pair_count ClubClient 1 5 w2 = 2"
  by (simp add: link_create_def new_link_def insert_link_def uuid4_def get_datetime_def
      violates_unique_def pair_count_def demo_defs)

section \<open>Properties of the managers and save hooks\<close>

subsection \<open>Client writes\<close>


text \<open>The instance that \<open>create\<close> builds, and the readings of the clock it takes.\<close>

lemma new_client_eq:
  "new_client h kwargs usr w =
     (\<lparr>client_id = uuid_src h (draws w),
       client_created = (case kw_created kwargs of Some v \<Rightarrow> v | None \<Rightarrow> clock h (ticks w)),
       client_modified =
         (case kw_modified kwargs of
            Some v \<Rightarrow> v
          | None \<Rightarrow> clock h (ticks w + (if kw_created kwargs = None then 1 else 0))),
       client_user = usr\<rparr>,
      w\<lparr>draws := Suc (draws w),
        ticks := ticks w + (if kw_created kwargs = None then 1 else 0)
                         + (if kw_modified kwargs = None then 1 else 0)\<rparr>)"
  by (simp add: new_client_def uuid4_def field_or_default_def get_datetime_def
      split: option.splits)

text \<open>The \<open>save\<close> hook with \<open>force_insert\<close>, validator by validator.\<close>

lemma client_save_insert:
  "client_save h True obj w =
     (if clock h (ticks w) < client_created obj
      then (Inl (ValidationError ''Date and time cannot be in the future.''
                   [(''created'', PDatetime (client_created obj))]),
            w\<lparr>ticks := Suc (ticks w)\<rparr>)
      else if clock h (Suc (ticks w)) < client_modified obj
      then (Inl (ValidationError ''Date and time cannot be in the future.''
                   [(''modified'', PDatetime (client_modified obj))]),
            w\<lparr>ticks := Suc (Suc (ticks w))\<rparr>)
      else client_insert obj (w\<lparr>ticks := Suc (Suc (ticks w))\<rparr>))"
  by (simp add: client_save_def client_validators_def client_getattr_def get_datetime_def
      check_created_def check_modified_def)

lemma client_create_unfold:
  assumes "new_client h kwargs usr w = (obj, w1)"
  shows "client_create h kwargs usr w =
     (if clock h (ticks w1) < client_created obj
      then (Inl (ValidationError ''Date and time cannot be in the future.''
                   [(''created'', PDatetime (client_created obj))]),
            w1\<lparr>ticks := Suc (ticks w1)\<rparr>)
      else if clock h (Suc (ticks w1)) < client_modified obj
      then (Inl (ValidationError ''Date and time cannot be in the future.''
                   [(''modified'', PDatetime (client_modified obj))]),
            w1\<lparr>ticks := Suc (Suc (ticks w1))\<rparr>)
      else if list_ex (\<lambda>r. client_id r = client_id obj \<or> client_user r = client_user obj)
                (clients w1)
      then (Inl IntegrityError, w1\<lparr>ticks := Suc (Suc (ticks w1))\<rparr>)
      else (Inr obj, w1\<lparr>ticks := Suc (Suc (ticks w1)), clients := clients w1 @ [obj]\<rparr>))"
  using assms by (simp add: client_create_def client_save_insert client_insert_def)

lemmas client_create_eq = client_create_unfold [OF new_client_eq]

lemma client_create_passed_created:
  assumes "kw_created kwargs = Some v"
    and "clock h (ticks w + (if kw_modified kwargs = None then 1 else 0)) < v"
  shows "client_create h kwargs usr w =
           (Inl (ValidationError ''Date and time cannot be in the future.''
                   [(''created'', PDatetime v)]),
            w\<lparr>draws := Suc (draws w),
              ticks := Suc (ticks w + (if kw_modified kwargs = None then 1 else 0))\<rparr>)"
  using assms by (simp add: client_create_eq)

lemma client_create_passed_modified:
  assumes "kw_created kwargs = Some c" and "c \<le> clock h (ticks w)"
    and "kw_modified kwargs = Some v" and "clock h (Suc (ticks w)) < v"
  shows "client_create h kwargs usr w =
           (Inl (ValidationError ''Date and time cannot be in the future.''
                   [(''modified'', PDatetime v)]),
            w\<lparr>draws := Suc (draws w), ticks := Suc (Suc (ticks w))\<rparr>)"
  using assms by (simp add: client_create_eq)

lemma client_create_passed_modified_only:
  assumes "kw_created kwargs = None" and "clock h (ticks w) \<le> clock h (Suc (ticks w))"
    and "kw_modified kwargs = Some v" and "clock h (Suc (Suc (ticks w))) < v"
  shows "client_create h kwargs usr w =
           (Inl (ValidationError ''Date and time cannot be in the future.''
                   [(''modified'', PDatetime v)]),
            w\<lparr>draws := Suc (draws w), ticks := Suc (Suc (Suc (ticks w)))\<rparr>)"
  using assms by (simp add: client_create_eq)

lemma client_create_omitted_created:
  assumes mono: "\<forall>i j. i \<le> j \<longrightarrow> clock h i \<le> clock h j"
    and om: "kw_created kwargs = None"
  shows "fst (client_create h kwargs usr w) \<noteq> Inl (ValidationError msg [(''created'', p)]) \<and>
         (\<forall>obj w'. client_create h kwargs usr w = (Inr obj, w') \<longrightarrow>
            client_created obj = clock h (ticks w))"
proof -
  have "clock h (ticks w) \<le> clock h (Suc (ticks w))"
    "clock h (ticks w) \<le> clock h (Suc (Suc (ticks w)))"
    using mono by simp_all
  then show ?thesis
    using om by (auto simp: client_create_eq split: option.splits if_splits)
qed

lemma client_create_omitted_modified:
  assumes mono: "\<forall>i j. i \<le> j \<longrightarrow> clock h i \<le> clock h j"
    and om: "kw_modified kwargs = None"
  shows "fst (client_create h kwargs usr w) \<noteq> Inl (ValidationError msg [(''modified'', p)]) \<and>
         (\<forall>obj w'. client_create h kwargs usr w = (Inr obj, w') \<longrightarrow>
            client_modified obj =
              clock h (ticks w + (if kw_created kwargs = None then 1 else 0)))"
proof -
  have "clock h (ticks w) \<le> clock h (Suc (Suc (ticks w)))"
    "clock h (Suc (ticks w)) \<le> clock h (Suc (Suc (Suc (ticks w))))"
    using mono by simp_all
  then show ?thesis
    using om by (auto simp: client_create_eq split: option.splits if_splits)
qed

text \<open>
  C10, as the code has it. \<open>Client.objects.create\<close> is the base \<open>create\<close>: no validator
  runs before the instance is built. The \<open>save\<close> hook that \<open>create\<close> calls then validates
  both timestamps, passed or not. A passed timestamp later than the clock reading that
  its validator takes makes the call fail with a validation error for that field, and no
  row is stored (a key has been drawn and the clock read). An omitted field is filled
  from the clock and validated against a later reading, so that with a clock that never
  steps back the call cannot fail on that field, and a stored client has the reading of
  the default in it.
\<close>

theorem client_create_timestamps:
  "(\<forall>v. kw_created kwargs = Some v \<and>
        clock h (ticks w + (if kw_modified kwargs = None then 1 else 0)) < v \<longrightarrow>
      client_create h kwargs usr w =
        (Inl (ValidationError ''Date and time cannot be in the future.''
                [(''created'', PDatetime v)]),
         w\<lparr>draws := Suc (draws w),
           ticks := Suc (ticks w + (if kw_modified kwargs = None then 1 else 0))\<rparr>)) \<and>
   (\<forall>c v. kw_created kwargs = Some c \<and> c \<le> clock h (ticks w) \<and>
          kw_modified kwargs = Some v \<and> clock h (Suc (ticks w)) < v \<longrightarrow>
      client_create h kwargs usr w =
        (Inl (ValidationError ''Date and time cannot be in the future.''
                [(''modified'', PDatetime v)]),
         w\<lparr>draws := Suc (draws w), ticks := Suc (Suc (ticks w))\<rparr>)) \<and>
   (\<forall>v. kw_created kwargs = None \<and> clock h (ticks w) \<le> clock h (Suc (ticks w)) \<and>
        kw_modified kwargs = Some v \<and> clock h (Suc (Suc (ticks w))) < v \<longrightarrow>
      client_create h kwargs usr w =
        (Inl (ValidationError ''Date and time cannot be in the future.''
                [(''modified'', PDatetime v)]),
         w\<lparr>draws := Suc (draws w), ticks := Suc (Suc (Suc (ticks w)))\<rparr>)) \<and>
   ((\<forall>i j. i \<le> j \<longrightarrow> clock h i \<le> clock h j) \<longrightarrow>
      (kw_created kwargs = None \<longrightarrow>
         (\<forall>msg p. fst (client_create h kwargs usr w) \<noteq>
                    Inl (ValidationError msg [(''created'', p)])) \<and>
         (\<forall>obj w'. client_create h kwargs usr w = (Inr obj, w') \<longrightarrow>
            client_created obj = clock h (ticks w))) \<and>
      (kw_modified kwargs = None \<longrightarrow>
         (\<forall>msg p. fst (client_create h kwargs usr w) \<noteq>
                    Inl (ValidationError msg [(''modified'', p)])) \<and>
         (\<forall>obj w'. client_create h kwargs usr w = (Inr obj, w') \<longrightarrow>
            client_modified obj =
              clock h (ticks w + (if kw_created kwargs = None then 1 else 0)))))"
proof (intro conjI allI impI)
  fix v
  assume "kw_created kwargs = Some v \<and>
        clock h (ticks w + (if kw_modified kwargs = None then 1 else 0)) < v"
  then show "client_create h kwargs usr w =
        (Inl (ValidationError ''Date and time cannot be in the future.''
                [(''created'', PDatetime v)]),
         w\<lparr>draws := Suc (draws w),
           ticks := Suc (ticks w + (if kw_modified kwargs = None then 1 else 0))\<rparr>)"
    using client_create_passed_created by blast
next
  fix c v
  assume "kw_created kwargs = Some c \<and> c \<le> clock h (ticks w) \<and>
          kw_modified kwargs = Some v \<and> clock h (Suc (ticks w)) < v"
  then show "client_create h kwargs usr w =
        (Inl (ValidationError ''Date and time cannot be in the future.''
                [(''modified'', PDatetime v)]),
         w\<lparr>draws := Suc (draws w), ticks := Suc (Suc (ticks w))\<rparr>)"
    using client_create_passed_modified by blast
next
  fix v
  assume "kw_created kwargs = None \<and> clock h (ticks w) \<le> clock h (Suc (ticks w)) \<and>
        kw_modified kwargs = Some v \<and> clock h (Suc (Suc (ticks w))) < v"
  then show "client_create h kwargs usr w =
        (Inl (ValidationError ''Date and time cannot be in the future.''
                [(''modified'', PDatetime v)]),
         w\<lparr>draws := Suc (draws w), ticks := Suc (Suc (Suc (ticks w)))\<rparr>)"
    using client_create_passed_modified_only by blast
next
  fix msg p
  assume m: "\<forall>i j. i \<le> j \<longrightarrow> clock h i \<le> clock h j" and k: "kw_created kwargs = None"
  show "fst (client_create h kwargs usr w) \<noteq> Inl (ValidationError msg [(''created'', p)])"
    using client_create_omitted_created[of h kwargs usr w msg p] m k by blast
next
  fix obj w'
  assume m: "\<forall>i j. i \<le> j \<longrightarrow> clock h i \<le> clock h j" and k: "kw_created kwargs = None"
    and c: "client_create h kwargs usr w = (Inr obj, w')"
  show "client_created obj = clock h (ticks w)"
    using client_create_omitted_created[of h kwargs usr w "[]" "PStr []"] m k c by blast
next
  fix msg p
  assume m: "\<forall>i j. i \<le> j \<longrightarrow> clock h i \<le> clock h j" and k: "kw_modified kwargs = None"
  show "fst (client_create h kwargs usr w) \<noteq> Inl (ValidationError msg [(''modified'', p)])"
    using client_create_omitted_modified[of h kwargs usr w msg p] m k by blast
next
  fix obj w'
  assume m: "\<forall>i j. i \<le> j \<longrightarrow> clock h i \<le> clock h j" and k: "kw_modified kwargs = None"
    and c: "client_create h kwargs usr w = (Inr obj, w')"
  show "client_modified obj = clock h (ticks w + (if kw_created kwargs = None then 1 else 0))"
    using client_create_omitted_modified[of h kwargs usr w "[]" "PStr []"] m k c by blast
qed

text \<open>
  C10 as stated fails: for an omitted field the validator is invoked all the same, by
  the \<open>save\<close> hook. With no timestamp passed, a clock that steps back after the two
  defaults were read makes the call fail on the omitted \<open>created\<close>; with the advancing
  clock the call reads the clock four times, twice for the defaults and twice in the
  validators.
\<close>

theorem client_create_default_is_validated:
  "client_create backward_host no_kwargs 8 demo_world =
     (Inl (ValidationError ''Date and time cannot be in the future.''
             [(''created'', PDatetime 100)]),
      demo_world\<lparr>ticks := 3, draws := 1\<rparr>) \<and>
   (\<exists>obj w'. client_create demo_host no_kwargs 8 demo_world = (Inr obj, w') \<and>
      ticks demo_world = 0 \<and> ticks w' = 4)"
  by (simp add: client_create_eq no_kwargs_def backward_host_def demo_defs)

theorem client_create_timestamps_witness:
  "client_create demo_host \<lparr>kw_created = Some 5000, kw_modified = None\<rparr> 8 demo_world =
     (Inl (ValidationError ''Date and time cannot be in the future.''
             [(''created'', PDatetime 5000)]),
      demo_world\<lparr>draws := 1, ticks := 2\<rparr>) \<and>
   client_create demo_host \<lparr>kw_created = Some 7, kw_modified = Some 5000\<rparr> 8 demo_world =
     (Inl (ValidationError ''Date and time cannot be in the future.''
             [(''modified'', PDatetime 5000)]),
      demo_world\<lparr>draws := 1, ticks := 2\<rparr>) \<and>
   client_create demo_host \<lparr>kw_created = None, kw_modified = Some 5000\<rparr> 8 demo_world =
     (Inl (ValidationError ''Date and time cannot be in the future.''
             [(''modified'', PDatetime 5000)]),
      demo_world\<lparr>draws := 1, ticks := 3\<rparr>) \<and>
   fst (client_create demo_host no_kwargs 8 demo_world) \<noteq>
     Inl (ValidationError ''Date and time cannot be in the future.''
            [(''created'', PDatetime 1000)]) \<and>
   fst (client_create demo_host no_kwargs 8 demo_world) \<noteq>
     Inl (ValidationError ''Date and time cannot be in the future.''
            [(''modified'', PDatetime 1001)])"
proof -
  have mono: "\<forall>i j. i \<le> j \<longrightarrow> clock demo_host i \<le> clock demo_host j"
    by (simp add: demo_host_def)
  have t: "ticks demo_world = 0" "draws demo_world = 0" "clock demo_host 0 = 1000"
    "clock demo_host (Suc 0) = 1001" "clock demo_host (Suc (Suc 0)) = 1002"
    by (simp_all add: demo_host_def demo_world_def)
  note a = client_create_timestamps
             [where kwargs = "\<lparr>kw_created = Some 5000, kw_modified = None\<rparr>" and h = demo_host
                and w = demo_world and usr = 8]
  note b = client_create_timestamps
             [where kwargs = "\<lparr>kw_created = Some 7, kw_modified = Some 5000\<rparr>" and h = demo_host
                and w = demo_world and usr = 8]
  note c = client_create_timestamps
             [where kwargs = "\<lparr>kw_created = None, kw_modified = Some 5000\<rparr>" and h = demo_host
                and w = demo_world and usr = 8]
  note d = client_create_timestamps
             [where kwargs = no_kwargs and h = demo_host and w = demo_world and usr = 8]
  have 1: "client_create demo_host \<lparr>kw_created = Some 5000, kw_modified = None\<rparr> 8 demo_world =
     (Inl (ValidationError ''Date and time cannot be in the future.''
             [(''created'', PDatetime 5000)]),
      demo_world\<lparr>draws := 1, ticks := 2\<rparr>)"
    using a t by simp
  have 2: "client_create demo_host \<lparr>kw_created = Some 7, kw_modified = Some 5000\<rparr> 8 demo_world =
     (Inl (ValidationError ''Date and time cannot be in the future.''
             [(''modified'', PDatetime 5000)]),
      demo_world\<lparr>draws := 1, ticks := 2\<rparr>)"
    using b t by simp
  have 3: "client_create demo_host \<lparr>kw_created = None, kw_modified = Some 5000\<rparr> 8 demo_world =
     (Inl (ValidationError ''Date and time cannot be in the future.''
             [(''modified'', PDatetime 5000)]),
      demo_world\<lparr>draws := 1, ticks := 3\<rparr>)"
    using c t by simp
  have 4: "fst (client_create demo_host no_kwargs 8 demo_world) \<noteq>
     Inl (ValidationError ''Date and time cannot be in the future.''
            [(''created'', PDatetime 1000)])"
    and 5: "fst (client_create demo_host no_kwargs 8 demo_world) \<noteq>
     Inl (ValidationError ''Date and time cannot be in the future.''
            [(''modified'', PDatetime 1001)])"
    using d mono by (simp_all add: no_kwargs_def)
  from 1 2 3 4 5 show ?thesis by (intro conjI)
qed

subsection \<open>Writes of the other models\<close>










end
